theory Spec2Isabelle
  imports Complex_Main
begin

section \<open>Python values used by the updater\<close>

text \<open>
  The exceptions that the modelled code can raise. A computation that may raise has the
  type \<open>exn + 'a\<close>, with \<open>Inl\<close> for the raised exception.
  \<open>RequestException\<close> stands for the whole class \<open>requests.RequestException\<close>
  (connection errors, \<open>HTTPError\<close> from \<open>raise_for_status\<close>, and the
  \<open>JSONDecodeError\<close> that \<open>response.json()\<close> raises on an undecodable body,
  which derives from \<open>RequestException\<close> since requests 2.27).
\<close>

datatype exn =
    RequestException | ValueError | IndexError | OverflowError
  | AttributeError | TypeError | KeyError | OSError

text \<open>
  A Python \<open>float\<close> is modelled by the exact rational it denotes, together with the two
  infinities and nan. The range of a double is modelled (overflow to an infinity, the
  \<open>OverflowError\<close> of a conversion from a too large \<open>int\<close>, underflow to zero when
  a decimal text is read); rounding to 53 bits inside the range is not modelled, and
  \<open>0.0\<close> and \<open>-0.0\<close>, which compare equal, are one value.
\<close>

datatype pyfloat = Fin rat | PInf | NInf | NaN

definition dbl_overflow :: rat where
  "dbl_overflow = 2 ^ 1024 - 2 ^ 970"

definition dbl_tiny :: rat where
  "dbl_tiny = 1 / 2 ^ 1075"

definition to_double :: "rat \<Rightarrow> pyfloat" where
  "to_double q =
     (if dbl_overflow \<le> q then PInf
      else if q \<le> - dbl_overflow then NInf
      else if \<bar>q\<bar> \<le> dbl_tiny then Fin 0
      else Fin q)"

text \<open>\<open>float(n)\<close> for an \<open>int\<close>, as the mixed addition \<open>int + float\<close> performs it.\<close>

definition int_to_float :: "int \<Rightarrow> exn + pyfloat" where
  "int_to_float n =
     (if dbl_overflow \<le> \<bar>of_int n\<bar> then Inl OverflowError else Inr (Fin (of_int n)))"

text \<open>\<open>a / b\<close> on two \<open>int\<close>s with \<open>b\<close> not zero (the code divides by 60 only).\<close>

definition int_truediv :: "int \<Rightarrow> int \<Rightarrow> exn + pyfloat" where
  "int_truediv a b =
     (let q = (of_int a :: rat) / of_int b in
      if dbl_overflow \<le> \<bar>q\<bar> then Inl OverflowError
      else if \<bar>q\<bar> \<le> dbl_tiny then Inr (Fin 0)
      else Inr (Fin q))"

text \<open>
  \<open>x + y\<close> on two floats. The sum of two doubles never underflows, so only the
  overflow is written out.
\<close>

fun fadd :: "pyfloat \<Rightarrow> pyfloat \<Rightarrow> pyfloat" where
  "fadd NaN y = NaN"
| "fadd x NaN = NaN"
| "fadd PInf NInf = NaN"
| "fadd NInf PInf = NaN"
| "fadd PInf y = PInf"
| "fadd x PInf = PInf"
| "fadd NInf y = NInf"
| "fadd x NInf = NInf"
| "fadd (Fin a) (Fin b) =
     (if dbl_overflow \<le> a + b then PInf
      else if a + b \<le> - dbl_overflow then NInf
      else Fin (a + b))"


subsection \<open>Strings\<close>

text \<open>
  A \<open>str\<close> is a list of characters, each read as a code point below 256 (Latin-1),
  which covers the column names and categories of the report (the accented i in the name of
  the category column is U+00ED). The white space of \<open>str.strip\<close>, \<open>int\<close> and \<open>float\<close> in that range is
  \<open>\t \n \v \f \r\<close>, U+001C to U+001F, the space, U+0085 and U+00A0.
\<close>

definition is_space :: "char \<Rightarrow> bool" where
  "is_space c = ((of_char c :: nat) \<in> set [9, 10, 11, 12, 13, 28, 29, 30, 31, 32, 133, 160])"

definition py_strip :: "string \<Rightarrow> string" where
  "py_strip s = rev (dropWhile is_space (rev (dropWhile is_space s)))"

text \<open>\<open>s.replace(",", ".")\<close>\<close>

definition replace_comma :: "string \<Rightarrow> string" where
  "replace_comma s = map (\<lambda>c. if c = CHR '','' then CHR ''.'' else c) s"

text \<open>\<open>s.split(d)\<close> for a one-character separator: never an empty list.\<close>

fun py_split :: "char \<Rightarrow> string \<Rightarrow> string list" where
  "py_split d [] = [[]]"
| "py_split d (c # cs) =
     (if c = d then [] # py_split d cs
      else (case py_split d cs of
              p # ps \<Rightarrow> (c # p) # ps
            | [] \<Rightarrow> [[c]]))"

text \<open>
  \<open>s.upper()\<close> on the ASCII letters. Other characters are left as they are: no character
  other than \<open>o\<close> and \<open>k\<close> has \<open>O\<close> or \<open>K\<close> as its upper case, so the comparison
  with \<open>"OK"\<close>, the only use of \<open>upper\<close> in the code, is the one Python makes.
\<close>

definition upper_char :: "char \<Rightarrow> char" where
  "upper_char c =
     (if 97 \<le> (of_char c :: nat) \<and> (of_char c :: nat) \<le> 122
      then char_of ((of_char c :: nat) - 32) else c)"

definition py_upper :: "string \<Rightarrow> string" where
  "py_upper s = map upper_char s"

definition lower_char :: "char \<Rightarrow> char" where
  "lower_char c =
     (if 65 \<le> (of_char c :: nat) \<and> (of_char c :: nat) \<le> 90
      then char_of ((of_char c :: nat) + 32) else c)"

subsection \<open>Reading numbers: \<open>int(s)\<close> and \<open>float(s)\<close>\<close>

definition is_digit :: "char \<Rightarrow> bool" where
  "is_digit c = (48 \<le> (of_char c :: nat) \<and> (of_char c :: nat) \<le> 57)"

definition digit_val :: "char \<Rightarrow> nat" where
  "digit_val c = of_char c - 48"

definition digits_val :: "string \<Rightarrow> nat" where
  "digits_val ds = foldl (\<lambda>n c. 10 * n + digit_val c) 0 ds"

text \<open>
  A run of digits in which single underscores may stand between two digits; the result
  is the digits alone.
\<close>

fun digitpart :: "string \<Rightarrow> string option" where
  "digitpart [] = None"
| "digitpart [c] = (if is_digit c then Some [c] else None)"
| "digitpart (c # d # cs) =
     (if is_digit c
      then (if d = CHR ''_'' then map_option ((#) c) (digitpart cs)
            else map_option ((#) c) (digitpart (d # cs)))
      else None)"

text \<open>An optional sign in front: whether it is a minus, and the rest.\<close>

definition split_sign :: "string \<Rightarrow> bool \<times> string" where
  "split_sign s =
     (case s of
        [] \<Rightarrow> (False, [])
      | c # cs \<Rightarrow>
          if c = CHR ''-'' then (True, cs)
          else if c = CHR ''+'' then (False, cs)
          else (False, s))"

text \<open>
  \<open>int(s)\<close> in base 10: white space around, an optional sign, digits with underscores.
  A text of more than 4300 digits is refused with \<open>ValueError\<close> (the default limit
  \<open>sys.int_max_str_digits\<close>).
\<close>

definition py_int :: "string \<Rightarrow> exn + int" where
  "py_int s =
     (case split_sign (py_strip s) of
        (neg, u) \<Rightarrow>
          (case digitpart u of
             None \<Rightarrow> Inl ValueError
           | Some ds \<Rightarrow>
               if 4300 < length ds then Inl ValueError
               else Inr (if neg then - int (digits_val ds) else int (digits_val ds))))"

text \<open>
  \<open>float(s)\<close>. Underscores are allowed between digits only and are removed first; then
  comes an optional sign and \<open>inf\<close>, \<open>infinity\<close> or \<open>nan\<close> in any letter case, or a
  decimal number: digits, an optional point and digits (at least one digit in all), and
  an optional exponent.
\<close>

fun strip_underscores :: "char \<Rightarrow> string \<Rightarrow> string option" where
  "strip_underscores prev [] = (if prev = CHR ''_'' then None else Some [])"
| "strip_underscores prev (c # cs) =
     (if c = CHR ''_''
      then (if is_digit prev then strip_underscores c cs else None)
      else (if prev = CHR ''_'' \<and> \<not> is_digit c then None
            else map_option ((#) c) (strip_underscores c cs)))"

definition all_digits :: "string \<Rightarrow> bool" where
  "all_digits s = list_all is_digit s"

text \<open>The exponent part: empty, or \<open>e\<close> or \<open>E\<close>, an optional sign and digits.\<close>

definition parse_exponent :: "string \<Rightarrow> int option" where
  "parse_exponent s =
     (case s of
        [] \<Rightarrow> Some 0
      | c # cs \<Rightarrow>
          if c = CHR ''e'' \<or> c = CHR ''E''
          then (case split_sign cs of
                  (neg, ds) \<Rightarrow>
                    if ds \<noteq> [] \<and> all_digits ds
                    then Some (if neg then - int (digits_val ds) else int (digits_val ds))
                    else None)
          else None)"

definition scale10 :: "rat \<Rightarrow> int \<Rightarrow> rat" where
  "scale10 m e = (if 0 \<le> e then m * 10 ^ nat e else m / 10 ^ nat (- e))"

definition parse_decimal :: "string \<Rightarrow> rat option" where
  "parse_decimal s =
     (let ip = takeWhile is_digit s;
          r1 = dropWhile is_digit s;
          has_point = (r1 \<noteq> [] \<and> hd r1 = CHR ''.'');
          r2 = (if has_point then tl r1 else r1);
          fp = (if has_point then takeWhile is_digit r2 else []);
          r3 = (if has_point then dropWhile is_digit r2 else r2)
      in if ip = [] \<and> fp = [] then None
         else (case parse_exponent r3 of
                 None \<Rightarrow> None
               | Some e \<Rightarrow>
                   Some (scale10 (of_nat (digits_val (ip @ fp))) (e - int (length fp)))))"

definition py_float :: "string \<Rightarrow> exn + pyfloat" where
  "py_float s =
     (case strip_underscores (CHR 0x00) (py_strip s) of
        None \<Rightarrow> Inl ValueError
      | Some t \<Rightarrow>
          (case split_sign t of
             (neg, u) \<Rightarrow>
               if map lower_char u = ''inf'' \<or> map lower_char u = ''infinity''
               then Inr (if neg then NInf else PInf)
               else if map lower_char u = ''nan'' then Inr NaN
               else (case parse_decimal u of
                       None \<Rightarrow> Inl ValueError
                     | Some q \<Rightarrow> Inr (to_double (if neg then - q else q)))))"

section \<open>The report row and the value calculator (processing.py)\<close>

text \<open>
  The code reads a row only through \<open>str(row.get(column, default))\<close>, so a row is the
  map from a column name to the text \<open>str\<close> gives for its cell. An empty cell is loaded
  by pandas as the float nan, whose text is \<open>nan\<close>. A column the sheet does not have is
  absent from the map, and \<open>row_get\<close> then yields the text of the default.
\<close>

type_synonym row = "string \<rightharpoonup> string"

definition row_get :: "row \<Rightarrow> string \<Rightarrow> string \<Rightarrow> string" where
  "row_get r k d = (case r k of Some v \<Rightarrow> v | None \<Rightarrow> d)"

definition Categoria :: string where
  "Categoria = ''Categor'' @ [CHR 0xED] @ ''a''"

text \<open>The \<open>try\<close> block of the machinery branch: \<open>horas + minutos / 60\<close>.\<close>

definition parse_tiempo :: "string \<Rightarrow> exn + pyfloat" where
  "parse_tiempo tiempo =
     (case py_split (CHR '':'') tiempo of
        [] \<Rightarrow> Inl IndexError
      | p0 # ps \<Rightarrow>
          (case py_int p0 of
             Inl e \<Rightarrow> Inl e
           | Inr horas \<Rightarrow>
               (case (case ps of [] \<Rightarrow> Inr 0 | p1 # _ \<Rightarrow> py_int p1) of
                  Inl e \<Rightarrow> Inl e
                | Inr minutos \<Rightarrow>
                    (case int_truediv minutos 60 of
                       Inl e \<Rightarrow> Inl e
                     | Inr q \<Rightarrow>
                         (case int_to_float horas of
                            Inl e \<Rightarrow> Inl e
                          | Inr h \<Rightarrow> Inr (fadd h q))))))"

definition calculate_value_to_add :: "row \<Rightarrow> exn + (pyfloat \<times> string)" where
  "calculate_value_to_add r =
     (let categoria = py_strip (row_get r Categoria '''') in
      if categoria = ''Flota Liviana'' \<or> categoria = ''Camiones'' then
        (case py_float (replace_comma (row_get r ''Km'' ''0'')) of
           Inr valor \<Rightarrow> Inr (valor, ''Km'')
         | Inl e \<Rightarrow> if e = ValueError then Inr (Fin 0, ''Km'') else Inl e)
      else if categoria = ''Maquinarias'' then
        (case parse_tiempo (py_strip (row_get r ''Tiempo de marcha'' ''0:00'')) of
           Inr v \<Rightarrow> Inr (v, ''Horas'')
         | Inl e \<Rightarrow>
             if e = ValueError \<or> e = IndexError then Inr (Fin 0, ''Horas'') else Inl e)
      else Inr (Fin 0, ''Desconocido''))"

definition get_interno_and_categoria :: "row \<Rightarrow> string \<times> string" where
  "get_interno_and_categoria r =
     (py_strip (row_get r ''Interno'' ''''), py_strip (row_get r Categoria ''''))"

section \<open>The remote meter client (api.py)\<close>

text \<open>
  A decoded JSON body, as \<open>response.json()\<close> returns it. A \<open>dict\<close> is an association
  list read with \<open>map_of\<close>; \<open>JNull\<close> is Python's \<open>None\<close>.
\<close>

datatype json =
    JNull | JBool bool | JInt int | JFloat pyfloat | JStr string
  | JArr "json list" | JObj "(string \<times> json) list"

text \<open>Truth value of an object, as \<open>if x\<close> and \<open>not x\<close> take it.\<close>

fun truthy :: "json \<Rightarrow> bool" where
  "truthy JNull = False"
| "truthy (JBool b) = b"
| "truthy (JInt n) = (n \<noteq> 0)"
| "truthy (JFloat x) = (x \<noteq> Fin 0)"
| "truthy (JStr s) = (s \<noteq> [])"
| "truthy (JArr xs) = (xs \<noteq> [])"
| "truthy (JObj kv) = (kv \<noteq> [])"

text \<open>\<open>x.get(key, default)\<close>: only a \<open>dict\<close> has the method.\<close>

fun py_get :: "json \<Rightarrow> string \<Rightarrow> json \<Rightarrow> exn + json" where
  "py_get (JObj kv) k d = Inr (case map_of kv k of Some v \<Rightarrow> v | None \<Rightarrow> d)"
| "py_get x k d = Inl AttributeError"

text \<open>\<open>x[0]\<close>. The keys of a decoded JSON object are strings, so \<open>0\<close> is never one.\<close>

fun py_item0 :: "json \<Rightarrow> exn + json" where
  "py_item0 (JArr []) = Inl IndexError"
| "py_item0 (JArr (x # xs)) = Inr x"
| "py_item0 (JStr []) = Inl IndexError"
| "py_item0 (JStr (c # cs)) = Inr (JStr [c])"
| "py_item0 (JObj kv) = Inl KeyError"
| "py_item0 x = Inl TypeError"

text \<open>
  What one HTTP request does: \<open>requests.post\<close>, \<open>get\<close> or \<open>put\<close> raises a
  \<open>RequestException\<close>, or returns a response. \<open>json_body\<close> is \<open>None\<close> when the
  body is not valid JSON.
\<close>

record response =
  status_code :: nat
  text_body :: string
  json_body :: "json option"

datatype http_outcome = Raised | Responded response

definition raise_for_status :: "response \<Rightarrow> exn + unit" where
  "raise_for_status r =
     (if 400 \<le> status_code r \<and> status_code r < 600 then Inl RequestException else Inr ())"

definition response_json :: "response \<Rightarrow> exn + json" where
  "response_json r = (case json_body r of None \<Rightarrow> Inl RequestException | Some j \<Rightarrow> Inr j)"

text \<open>
  \<open>authenticate\<close>: the argument is what the POST to the token URL does. The result is
  the value of \<open>self.token\<close> after the call (\<open>JNull\<close> at construction) and the
  returned flag.
\<close>

definition authenticate_try :: "http_outcome \<Rightarrow> exn + json" where
  "authenticate_try out =
     (case out of
        Raised \<Rightarrow> Inl RequestException
      | Responded r \<Rightarrow>
          (case raise_for_status r of
             Inl e \<Rightarrow> Inl e
           | Inr _ \<Rightarrow>
               (case response_json r of
                  Inl e \<Rightarrow> Inl e
                | Inr data \<Rightarrow> py_get data ''access_token'' JNull)))"

definition authenticate :: "http_outcome \<Rightarrow> exn + (json \<times> bool)" where
  "authenticate out =
     (case authenticate_try out of
        Inr token \<Rightarrow> Inr (token, token \<noteq> JNull)
      | Inl e \<Rightarrow> if e = RequestException then Inr (JNull, False) else Inl e)"

text \<open>
  \<open>get_meter_value\<close>: the argument is what the GET for the serial does; the result
  \<open>JNull\<close> is the \<open>None\<close> of the source.
\<close>

definition get_meter_value_try :: "http_outcome \<Rightarrow> exn + json" where
  "get_meter_value_try out =
     (case out of
        Raised \<Rightarrow> Inl RequestException
      | Responded r \<Rightarrow>
          (case raise_for_status r of
             Inl e \<Rightarrow> Inl e
           | Inr _ \<Rightarrow>
               (case response_json r of
                  Inl e \<Rightarrow> Inl e
                | Inr data \<Rightarrow>
                    (case py_get data ''data'' JNull of
                       Inl e \<Rightarrow> Inl e
                     | Inr d \<Rightarrow>
                         if \<not> truthy d then Inr JNull
                         else (case py_item0 d of
                                 Inl e \<Rightarrow> Inl e
                               | Inr meter \<Rightarrow>
                                   (case py_get meter ''last_data'' (JObj []) of
                                      Inl e \<Rightarrow> Inl e
                                    | Inr last_data \<Rightarrow>
                                        py_get last_data ''accumulated_value'' JNull))))))"

definition get_meter_value :: "http_outcome \<Rightarrow> exn + json" where
  "get_meter_value out =
     (case get_meter_value_try out of
        Inr v \<Rightarrow> Inr v
      | Inl e \<Rightarrow> if e = RequestException then Inr JNull else Inl e)"

text \<open>
  The messages of \<open>update_meter\<close> and of the final signal, by their format and its
  arguments; the rendering as text is not modelled.
\<close>

datatype message =
    Msg_updated
  | Msg_reported json
  | Msg_http nat string
  | Msg_exception
  | Msg_auth_error
  | Msg_exn exn
  | Msg_summary nat nat

definition update_meter_try :: "http_outcome \<Rightarrow> exn + (bool \<times> message)" where
  "update_meter_try out =
     (case out of
        Raised \<Rightarrow> Inl RequestException
      | Responded r \<Rightarrow>
          if status_code r = 200 then
            (case response_json r of
               Inl e \<Rightarrow> Inl e
             | Inr data \<Rightarrow>
                 (case py_get data ''success'' JNull of
                    Inl e \<Rightarrow> Inl e
                  | Inr s \<Rightarrow>
                      if truthy s then Inr (True, Msg_updated)
                      else Inr (False, Msg_reported data)))
          else Inr (False, Msg_http (status_code r) (text_body r)))"

definition update_meter :: "http_outcome \<Rightarrow> exn + (bool \<times> message)" where
  "update_meter out =
     (case update_meter_try out of
        Inr res \<Rightarrow> Inr res
      | Inl e \<Rightarrow> if e = RequestException then Inr (False, Msg_exception) else Inl e)"

section \<open>The update pipeline (gui.py, \<open>UpdateWorker.run\<close>)\<close>

text \<open>
  Everything outside the program, for one run: what each HTTP request does, what
  \<open>load_excel\<close> yields, and whether the workbook can be opened and saved when
  \<open>mark_status\<close> is called for a row. Every row makes at most one request of each kind,
  so the answers are indexed by the row.
\<close>

record world =
  post_token :: http_outcome
  read_excel :: "exn + row list"
  get_meters :: "nat \<Rightarrow> string \<Rightarrow> http_outcome"
  put_reading :: "nat \<Rightarrow> string \<Rightarrow> pyfloat \<Rightarrow> http_outcome"
  workbook_ok :: "nat \<Rightarrow> bool"

record stats =
  successful :: nat
  failed :: nat
  skipped :: nat
  already_processed :: nat

definition stats0 :: stats where
  "stats0 = \<lparr>successful = 0, failed = 0, skipped = 0, already_processed = 0\<rparr>"

datatype logline =
    L_authenticating | L_auth_ok | L_loading | L_found nat
  | L_already string | L_row string string | L_no_meter | L_zero
  | L_sum json pyfloat pyfloat string | L_updated | L_failed message
  | L_blank | L_rule | L_completed stats | L_error exn

text \<open>
  What a run does, in order: the four signals of the worker, and the calls that leave
  the program, each with its result. \<open>Mark_status i s ok\<close> is the call
  \<open>mark_status(filepath, i, s)\<close>; the cell is written when \<open>ok\<close> holds, and otherwise
  the exception is caught inside \<open>mark_status\<close> and the file is left as it was.
\<close>

datatype event =
    Log logline
  | Progress nat nat
  | Stats_update stats
  | Finished bool message
  | Authenticate "exn + bool"
  | Load_excel "exn + nat"
  | Get_meter_value nat string "exn + json"
  | Update_meter nat string pyfloat "exn + (bool \<times> message)"
  | Mark_status nat string bool

text \<open>\<open>contador_actual + valor_a_sumar\<close>, the right operand a float.\<close>

fun add_to_float :: "json \<Rightarrow> pyfloat \<Rightarrow> exn + pyfloat" where
  "add_to_float (JInt n) v =
     (case int_to_float n of Inl e \<Rightarrow> Inl e | Inr x \<Rightarrow> Inr (fadd x v))"
| "add_to_float (JFloat x) v = Inr (fadd x v)"
| "add_to_float (JBool b) v = Inr (fadd (Fin (if b then 1 else 0)) v)"
| "add_to_float x v = Inl TypeError"

text \<open>
  The last part of a turn of the loop: the call of \<open>update_meter\<close> and what follows
  it. \<open>ev\<close> are the events of the turn so far.
\<close>

definition submit ::
  "world \<Rightarrow> nat \<Rightarrow> string \<Rightarrow> pyfloat \<Rightarrow> stats \<Rightarrow> event list \<Rightarrow> event list \<times> (exn + stats)"
  where
  "submit w idx interno nuevo_valor st ev =
     (let updated = update_meter (put_reading w idx interno nuevo_valor) in
      case updated of
        Inl e \<Rightarrow> (ev @ [Update_meter idx interno nuevo_valor updated], Inl e)
      | Inr (success, msg) \<Rightarrow>
          if success then
            (let st' = st\<lparr>successful := successful st + 1\<rparr> in
             (ev @ [Update_meter idx interno nuevo_valor updated, Log L_updated,
                    Mark_status idx ''OK'' (workbook_ok w idx), Stats_update st'], Inr st'))
          else
            (let st' = st\<lparr>failed := failed st + 1\<rparr> in
             (ev @ [Update_meter idx interno nuevo_valor updated, Log (L_failed msg),
                    Stats_update st'], Inr st')))"

text \<open>
  One turn of the loop for the row \<open>r\<close> at index \<open>idx\<close>: the events of the turn, and
  the counters after it or the exception that leaves the loop.
\<close>

definition process_row ::
  "world \<Rightarrow> nat \<Rightarrow> nat \<Rightarrow> row \<Rightarrow> stats \<Rightarrow> event list \<times> (exn + stats)" where
  "process_row w total_rows idx r st =
     (case get_interno_and_categoria r of
        (interno, categoria) \<Rightarrow>
          if interno = [] \<or> interno = ''nan'' then ([Progress (idx + 1) total_rows], Inr st)
          else if py_upper (py_strip (row_get r ''Estado'' '''')) = ''OK'' then
            (let st' = st\<lparr>already_processed := already_processed st + 1\<rparr> in
             ([Progress (idx + 1) total_rows, Stats_update st,
               Log (L_already interno), Stats_update st'], Inr st'))
          else
            (let looked = get_meter_value (get_meters w idx interno);
                 ev = [Progress (idx + 1) total_rows, Stats_update st,
                       Log (L_row interno categoria), Get_meter_value idx interno looked]
             in case looked of
                  Inl e \<Rightarrow> (ev, Inl e)
                | Inr contador_actual \<Rightarrow>
                    if contador_actual = JNull then
                      (let st' = st\<lparr>failed := failed st + 1\<rparr> in
                       (ev @ [Log L_no_meter, Stats_update st'], Inr st'))
                    else
                      (case calculate_value_to_add r of
                         Inl e \<Rightarrow> (ev, Inl e)
                       | Inr (valor_a_sumar, unidad) \<Rightarrow>
                           if valor_a_sumar = Fin 0 then
                             (let st' = st\<lparr>skipped := skipped st + 1\<rparr> in
                              (ev @ [Log L_zero, Stats_update st'], Inr st'))
                           else
                             (case add_to_float contador_actual valor_a_sumar of
                                Inl e \<Rightarrow> (ev, Inl e)
                              | Inr nuevo_valor \<Rightarrow>
                                  submit w idx interno nuevo_valor st
                                    (ev @ [Log (L_sum contador_actual valor_a_sumar
                                                  nuevo_valor unidad)])))))"

text \<open>The \<open>for\<close> loop over \<open>df.iterrows()\<close>, from the index \<open>idx\<close> on.\<close>

fun process_rows ::
  "world \<Rightarrow> nat \<Rightarrow> nat \<Rightarrow> row list \<Rightarrow> stats \<Rightarrow> event list \<times> (exn + stats)" where
  "process_rows w total_rows idx [] st = ([], Inr st)"
| "process_rows w total_rows idx (r # rs) st =
     (case process_row w total_rows idx r st of
        (ev, Inl e) \<Rightarrow> (ev, Inl e)
      | (ev, Inr st') \<Rightarrow>
          (case process_rows w total_rows (Suc idx) rs st' of
             (ev', res) \<Rightarrow> (ev @ ev', res)))"

text \<open>
  \<open>UpdateWorker.run\<close>. An exception of the body is caught by the handler at the end,
  which logs it and emits the failure signal.
\<close>

definition run :: "world \<Rightarrow> event list" where
  "run w =
     Log L_authenticating #
     (case authenticate (post_token w) of
        Inl e \<Rightarrow> [Authenticate (Inl e), Log (L_error e), Finished False (Msg_exn e)]
      | Inr (token, ok) \<Rightarrow>
          if \<not> ok then [Authenticate (Inr False), Finished False Msg_auth_error]
          else
            [Authenticate (Inr True), Log L_auth_ok, Log L_loading] @
            (case read_excel w of
               Inl e \<Rightarrow> [Load_excel (Inl e), Log (L_error e), Finished False (Msg_exn e)]
             | Inr df \<Rightarrow>
                 [Load_excel (Inr (length df)), Log (L_found (length df))] @
                 (case process_rows w (length df) 0 df stats0 of
                    (ev, Inl e) \<Rightarrow> ev @ [Log (L_error e), Finished False (Msg_exn e)]
                  | (ev, Inr st) \<Rightarrow>
                      ev @ [Log L_blank, Log L_rule, Log (L_completed st),
                            Finished True (Msg_summary (successful st) (failed st))])))"

text \<open>
  The \<open>Estado\<close> column of the report on disk: the text of the status cell of each
  row, by the index of the row in the DataFrame (the cell lies in row
  \<open>header_row + 1 + row_index\<close> of the column headed \<open>Estado\<close>, which
  \<open>mark_status\<close> finds or adds). \<open>mark_status\<close> writes this one cell and saves the
  workbook; when opening or saving raises, the exception is caught inside and the report
  stays as it was.
\<close>

type_synonym estado_column = "nat \<rightharpoonup> string"

definition mark_status :: "estado_column \<Rightarrow> nat \<Rightarrow> string \<Rightarrow> bool \<Rightarrow> estado_column" where
  "mark_status col row_index status io_ok =
     (if io_ok then col(row_index \<mapsto> status) else col)"

text \<open>The column after the calls of \<open>mark_status\<close> of a run.\<close>

fun report_after :: "event list \<Rightarrow> estado_column \<Rightarrow> estado_column" where
  "report_after [] col = col"
| "report_after (Mark_status i s ok # es) col = report_after es (mark_status col i s ok)"
| "report_after (e # es) col = report_after es col"

text \<open>
  The counters the window shows: \<open>start_update\<close> resets the four cards to 0 and
  \<open>update_stats\<close> overwrites them at every \<open>stats_update\<close> signal.
\<close>

definition shown_stats :: "event list \<Rightarrow> stats" where
  "shown_stats es = foldl (\<lambda>s e. case e of Stats_update s' \<Rightarrow> s' | _ \<Rightarrow> s) stats0 es"

section \<open>Definitions used to state the properties\<close>

subsection \<open>The value calculator as the specification words it\<close>







subsection \<open>Reading a run\<close>

text \<open>The rows for which \<open>mark_status\<close> is called, in the order of the calls.\<close>

fun marked_rows :: "event list \<Rightarrow> nat list" where
  "marked_rows [] = []"
| "marked_rows (Mark_status i s ok # es) = i # marked_rows es"
| "marked_rows (e # es) = marked_rows es"

text \<open>
  Every call of \<open>mark_status\<close> writes \<open>OK\<close> and comes right after the log line that
  follows a call of \<open>update_meter\<close> for the same row that returned success.
\<close>

definition marks_follow_success :: "event list \<Rightarrow> bool" where
  "marks_follow_success t =
     (\<forall>pre i s ok post. t = pre @ Mark_status i s ok # post \<longrightarrow>
        s = ''OK'' \<and>
        (\<exists>pre' serial v m.
           pre = pre' @ [Update_meter i serial v (Inr (True, m)), Log L_updated]))"

text \<open>The events that load the report or belong to a turn of the loop.\<close>

fun row_work :: "event \<Rightarrow> bool" where
  "row_work (Load_excel n) = True"
| "row_work (Progress c t) = True"
| "row_work (Stats_update s) = True"
| "row_work (Get_meter_value i s res) = True"
| "row_work (Update_meter i s v res) = True"
| "row_work (Mark_status i s ok) = True"
| "row_work e = False"

text \<open>The requests to the remote system and the write to the report.\<close>

fun remote_call :: "event \<Rightarrow> bool" where
  "remote_call (Get_meter_value i s res) = True"
| "remote_call (Update_meter i s v res) = True"
| "remote_call e = False"

fun update_or_mark :: "event \<Rightarrow> bool" where
  "update_or_mark (Update_meter i s v res) = True"
| "update_or_mark (Mark_status i s ok) = True"
| "update_or_mark e = False"




subsection \<open>Example inputs\<close>

definition ok_response :: "json \<Rightarrow> response" where
  "ok_response j = \<lparr>status_code = 200, text_body = [], json_body = Some j\<rparr>"

definition meter_body :: "json \<Rightarrow> json" where
  "meter_body v =
     JObj [(''data'', JArr [JObj [(''last_data'', JObj [(''accumulated_value'', v)])]])]"

text \<open>Nothing answers: every request raises.\<close>

definition world_offline :: "row list \<Rightarrow> world" where
  "world_offline df =
     \<lparr>post_token = Raised, read_excel = Inr df,
      get_meters = (\<lambda>i s. Raised), put_reading = (\<lambda>i s v. Raised),
      workbook_ok = (\<lambda>i. True)\<rparr>"

text \<open>Every meter reads 1000 and every update is accepted.\<close>

definition world_online :: "row list \<Rightarrow> world" where
  "world_online df =
     \<lparr>post_token = Responded (ok_response (JObj [(''access_token'', JStr ''t'')])),
      read_excel = Inr df,
      get_meters = (\<lambda>i s. Responded (ok_response (meter_body (JInt 1000)))),
      put_reading = (\<lambda>i s v. Responded (ok_response (JObj [(''success'', JBool True)]))),
      workbook_ok = (\<lambda>i. True)\<rparr>"

definition row_truck :: row where
  "row_truck = [''Interno'' \<mapsto> ''ER-1022'', Categoria \<mapsto> ''Camiones'', ''Km'' \<mapsto> ''50'']"


definition row_truck_lower :: row where
  "row_truck_lower = [''Interno'' \<mapsto> ''ER-1022'', Categoria \<mapsto> ''camiones'', ''Km'' \<mapsto> ''50'']"



text \<open>A running time of 309 digits: \<open>2\<close> followed by 308 zeros.\<close>

definition row_huge_hours :: row where
  "row_huge_hours = [''Interno'' \<mapsto> ''M-7'', Categoria \<mapsto> ''Maquinarias'',
                     ''Tiempo de marcha'' \<mapsto> CHR ''2'' # replicate 308 (CHR ''0'')]"

definition row_done :: row where
  "row_done = [''Interno'' \<mapsto> ''ER-1022'', Categoria \<mapsto> ''Camiones'', ''Km'' \<mapsto> ''50'',
               ''Estado'' \<mapsto> '' ok '']"

text \<open>A row whose identifier cell is empty.\<close>

definition row_blank :: row where
  "row_blank = [''Interno'' \<mapsto> ''nan'', Categoria \<mapsto> ''Camiones'', ''Km'' \<mapsto> ''50'']"


text \<open>Every lookup is answered with an empty list of meters.\<close>

definition world_no_meter :: "row list \<Rightarrow> world" where
  "world_no_meter df =
     \<lparr>post_token = Responded (ok_response (JObj [(''access_token'', JStr ''t'')])),
      read_excel = Inr df,
      get_meters = (\<lambda>i s. Responded (ok_response (JObj [(''data'', JArr [])]))),
      put_reading = (\<lambda>i s v. Responded (ok_response (JObj [(''success'', JBool True)]))),
      workbook_ok = (\<lambda>i. True)\<rparr>"

text \<open>A sheet whose category column is spelled without the accent.\<close>

definition row_no_accent :: row where
  "row_no_accent = [''Interno'' \<mapsto> ''ER-1022'', ''Categoria'' \<mapsto> ''Camiones'', ''Km'' \<mapsto> ''50'']"

section \<open>Evaluating the model on concrete texts\<close>

lemmas text_eval =
  py_strip_def is_space_def split_sign_def is_digit_def digit_val_def digits_val_def
  all_digits_def lower_char_def

lemmas float_eval =
  py_float_def parse_decimal_def parse_exponent_def scale10_def to_double_def
  dbl_overflow_def dbl_tiny_def

lemma py_upper_ok: "py_upper (py_strip '' ok '') = ''OK''"
  by code_simp

lemma py_float_50: "py_float ''50'' = Inr (Fin 50)"
  by (simp add: float_eval text_eval)


lemma interno_truck [simp]: "py_strip ''ER-1022'' = ''ER-1022''"
  by (simp add: text_eval)

lemma strip_simple:
  "py_strip ''Camiones'' = ''Camiones''"
  "py_strip ''camiones'' = ''camiones''"
  "py_strip ''Maquinarias'' = ''Maquinarias''"
  "py_strip ''M-7'' = ''M-7''"
  "py_strip ''nan'' = ''nan''"
  "py_strip [] = []"
  "py_strip ''5'' = ''5''"
  "py_strip ''1:45'' = ''1:45''"
  by (simp_all add: text_eval)

lemma calc_truck: "calculate_value_to_add row_truck = Inr (Fin 50, ''Km'')"
  by (simp add: calculate_value_to_add_def row_truck_def row_get_def Categoria_def
      replace_comma_def strip_simple py_float_50)


lemma lookup_online:
  "get_meter_value (Responded (ok_response (meter_body v))) = Inr v"
  by (simp add: get_meter_value_def get_meter_value_try_def ok_response_def meter_body_def
      raise_for_status_def response_json_def)

lemma lookup_offline: "get_meter_value Raised = Inr JNull"
  by (simp add: get_meter_value_def get_meter_value_try_def)

lemma update_accepted:
  "update_meter (Responded (ok_response (JObj [(''success'', JBool True)]))) = Inr (True, Msg_updated)"
  by (simp add: update_meter_def update_meter_try_def ok_response_def response_json_def)

section \<open>The run aborts when authentication fails\<close>

text \<open>
  C4. If \<open>authenticate\<close> returns \<open>False\<close>, the run consists of the first log line, the
  call of \<open>authenticate\<close> and the failure signal: the report is not loaded, no row is
  visited, no request for a meter is made, and the four counters shown stay at zero.
\<close>

theorem auth_failure_aborts_run:
  assumes "authenticate (post_token w) = Inr (token, False)"
  shows "run w = [Log L_authenticating, Authenticate (Inr False), Finished False Msg_auth_error]
       \<and> filter row_work (run w) = []
       \<and> shown_stats (run w) = stats0"
  using assms by (simp add: run_def shown_stats_def)

theorem auth_failure_aborts_run_witness:
  "authenticate (post_token (world_offline [row_truck])) = Inr (JNull, False)
   \<and> run (world_offline [row_truck]) =
       [Log L_authenticating, Authenticate (Inr False), Finished False Msg_auth_error]
   \<and> filter row_work (run (world_offline [row_truck])) = []
   \<and> shown_stats (run (world_offline [row_truck])) = stats0"
proof -
  have h: "authenticate (post_token (world_offline [row_truck])) = Inr (JNull, False)"
    by (simp add: world_offline_def authenticate_def authenticate_try_def)
  from auth_failure_aborts_run [OF h] h show ?thesis by blast
qed

section \<open>Rows without identifier, rows already processed\<close>

text \<open>
  C8. For a row whose identifier, once stripped, is empty or is \<open>nan\<close> (the text of a
  missing value), the turn of the loop only reports the progress: the four counters are
  returned as they were, no remote call is made and no status is written.
\<close>

theorem row_without_identifier_is_passed_over:
  assumes "py_strip (row_get r ''Interno'' '''') = [] \<or> py_strip (row_get r ''Interno'' '''') = ''nan''"
  shows "process_row w n idx r st = ([Progress (idx + 1) n], Inr st)
       \<and> filter remote_call (fst (process_row w n idx r st)) = []
       \<and> marked_rows (fst (process_row w n idx r st)) = []"
  using assms by (auto simp add: process_row_def get_interno_and_categoria_def)

theorem row_without_identifier_is_passed_over_witness:
  "py_strip (row_get row_blank ''Interno'' '''') = ''nan''
   \<and> process_row (world_online [row_blank]) 1 0 row_blank stats0 = ([Progress 1 1], Inr stats0)"
proof -
  have h: "py_strip (row_get row_blank ''Interno'' '''') = ''nan''"
    by (simp add: row_blank_def row_get_def Categoria_def strip_simple)
  with row_without_identifier_is_passed_over [of row_blank "world_online [row_blank]" 1 0 stats0]
  show ?thesis by simp
qed

text \<open>
  C5. For a row with an identifier (its stripped text is neither empty nor \<open>nan\<close>, the
  text of an empty cell) whose status, stripped and in upper case, is \<open>OK\<close>, the turn
  makes no remote call, writes no status, logs the row as already processed, adds one to
  the already-processed counter and to no other, and goes on to the next row.
\<close>

theorem already_processed_row_makes_no_call:
  assumes "py_strip (row_get r ''Interno'' '''') \<noteq> []"
      and "py_strip (row_get r ''Interno'' '''') \<noteq> ''nan''"
      and "py_upper (py_strip (row_get r ''Estado'' '''')) = ''OK''"
  shows "process_row w n idx r st =
           ([Progress (idx + 1) n, Stats_update st,
             Log (L_already (py_strip (row_get r ''Interno'' ''''))),
             Stats_update (st\<lparr>already_processed := already_processed st + 1\<rparr>)],
            Inr (st\<lparr>already_processed := already_processed st + 1\<rparr>))
       \<and> filter remote_call (fst (process_row w n idx r st)) = []
       \<and> marked_rows (fst (process_row w n idx r st)) = []"
  using assms by (simp add: process_row_def get_interno_and_categoria_def Let_def)

theorem already_processed_row_makes_no_call_witness:
  "py_strip (row_get row_done ''Interno'' '''') = ''ER-1022''
   \<and> py_upper (py_strip (row_get row_done ''Estado'' '''')) = ''OK''
   \<and> process_row (world_online [row_done]) 1 0 row_done stats0 =
       ([Progress 1 1, Stats_update stats0, Log (L_already ''ER-1022''),
         Stats_update \<lparr>successful = 0, failed = 0, skipped = 0, already_processed = 1\<rparr>],
        Inr \<lparr>successful = 0, failed = 0, skipped = 0, already_processed = 1\<rparr>)"
proof -
  have i: "py_strip (row_get row_done ''Interno'' '''') = ''ER-1022''"
    by (simp add: row_done_def row_get_def Categoria_def)
  have e: "py_upper (py_strip (row_get row_done ''Estado'' '''')) = ''OK''"
    by (simp add: row_done_def row_get_def Categoria_def py_upper_ok)
  from already_processed_row_makes_no_call [of row_done, OF _ _ e, of "world_online [row_done]" 1 0 stats0] i e
  show ?thesis by (simp add: stats0_def)
qed


section \<open>The status cell is written once, right after a successful update\<close>

lemma marked_rows_append: "marked_rows (xs @ ys) = marked_rows xs @ marked_rows ys"
  by (induction xs rule: marked_rows.induct) simp_all

lemma mfs_no_marks: "marked_rows t = [] \<Longrightarrow> marks_follow_success t"
  unfolding marks_follow_success_def
  by (auto simp: marked_rows_append)

lemma mfs_append:
  assumes "marks_follow_success a" "marks_follow_success b"
  shows "marks_follow_success (a @ b)"
  unfolding marks_follow_success_def
proof (intro allI impI)
  fix pre i s ok post
  assume eq: "a @ b = pre @ Mark_status i s ok # post"
  then consider us where "a = pre @ us" "us @ b = Mark_status i s ok # post"
    | us where "a @ us = pre" "b = us @ Mark_status i s ok # post"
    by (auto simp: append_eq_append_conv2)
  then show "s = ''OK'' \<and>
        (\<exists>pre' serial v m. pre = pre' @ [Update_meter i serial v (Inr (True, m)), Log L_updated])"
  proof cases
    case 1
    show ?thesis
    proof (cases us)
      case Nil
      with 1 have "b = [] @ Mark_status i s ok # post" by simp
      with assms(2) obtain pre' serial v m where
        "s = ''OK''" "[] = pre' @ [Update_meter i serial v (Inr (True, m)), Log L_updated]"
        unfolding marks_follow_success_def by blast
      then show ?thesis by simp
    next
      case (Cons u us')
      with 1 have "a = pre @ Mark_status i s ok # us'" by simp
      with assms(1) show ?thesis unfolding marks_follow_success_def by blast
    qed
  next
    case 2
    with assms(2) obtain pre' serial v m where
      "s = ''OK''" "us = pre' @ [Update_meter i serial v (Inr (True, m)), Log L_updated]"
      unfolding marks_follow_success_def by blast
    with 2 have "pre = (a @ pre') @ [Update_meter i serial v (Inr (True, m)), Log L_updated]" by simp
    with \<open>s = ''OK''\<close> show ?thesis by blast
  qed
qed

lemma mfs_success_tail:
  "marks_follow_success [Update_meter i serial v (Inr (True, m)), Log L_updated, Mark_status i ''OK'' ok]"
  unfolding marks_follow_success_def
  by (auto simp: Cons_eq_append_conv append_eq_Cons_conv)

lemma submit_marks:
  assumes "marked_rows ev = []"
  shows "marks_follow_success (fst (submit w idx interno nv st ev))
       \<and> (marked_rows (fst (submit w idx interno nv st ev)) = [] \<or> marked_rows (fst (submit w idx interno nv st ev)) = [idx])"
proof (cases "update_meter (put_reading w idx interno nv)")
  case (Inl e)
  then show ?thesis using assms
    by (simp add: submit_def Let_def marked_rows_append mfs_no_marks)
next
  case (Inr res)
  obtain success msg where res: "res = (success, msg)" by (cases res)
  show ?thesis
  proof (cases success)
    case True
    have "fst (submit w idx interno nv st ev) =
        (ev @ [Update_meter idx interno nv (Inr (True, msg)), Log L_updated, Mark_status idx ''OK'' (workbook_ok w idx)])
        @ [Stats_update (st\<lparr>successful := successful st + 1\<rparr>)]"
      using Inr res True by (simp add: submit_def Let_def)
    moreover have "marks_follow_success ((ev @ [Update_meter idx interno nv (Inr (True, msg)), Log L_updated, Mark_status idx ''OK'' (workbook_ok w idx)])
        @ [Stats_update (st\<lparr>successful := successful st + 1\<rparr>)])"
      by (intro mfs_append mfs_success_tail mfs_no_marks) (simp_all add: assms)
    ultimately show ?thesis using assms by (simp add: marked_rows_append)
  next
    case False
    then show ?thesis using Inr res assms
      by (simp add: submit_def Let_def marked_rows_append mfs_no_marks)
  qed
qed

lemma process_row_marks:
  "marks_follow_success (fst (process_row w n idx r st))
   \<and> (marked_rows (fst (process_row w n idx r st)) = [] \<or> marked_rows (fst (process_row w n idx r st)) = [idx])"
  unfolding process_row_def
  by (auto simp: Let_def mfs_no_marks submit_marks split: prod.splits sum.splits)

lemma process_rows_marks:
  "marks_follow_success (fst (process_rows w n idx rs st))
   \<and> distinct (marked_rows (fst (process_rows w n idx rs st)))
   \<and> (\<forall>i \<in> set (marked_rows (fst (process_rows w n idx rs st))). idx \<le> i)"
proof (induction rs arbitrary: idx st)
  case Nil
  then show ?case by (simp add: mfs_no_marks)
next
  case (Cons r rs)
  obtain ev res where pr: "process_row w n idx r st = (ev, res)" by (cases "process_row w n idx r st")
  from process_row_marks[of w n idx r st] pr
  have ev: "marks_follow_success ev" "marked_rows ev = [] \<or> marked_rows ev = [idx]" by simp_all
  show ?case
  proof (cases res)
    case (Inl e)
    with pr ev show ?thesis by auto
  next
    case (Inr st')
    obtain ev' res' where prs: "process_rows w n (Suc idx) rs st' = (ev', res')"
      by (cases "process_rows w n (Suc idx) rs st'")
    from Cons.IH[of "Suc idx" st'] prs
    have ih: "marks_follow_success ev'" "distinct (marked_rows ev')" "\<forall>i \<in> set (marked_rows ev'). Suc idx \<le> i"
      by simp_all
    have "fst (process_rows w n idx (r # rs) st) = ev @ ev'"
      using pr Inr prs by simp
    moreover have "marks_follow_success (ev @ ev')" using ev ih by (simp add: mfs_append)
    moreover have "distinct (marked_rows (ev @ ev'))" using ev ih by (auto simp: marked_rows_append)
    moreover have "\<forall>i \<in> set (marked_rows (ev @ ev')). idx \<le> i" using ev ih by (auto simp: marked_rows_append)
    ultimately show ?thesis by simp
  qed
qed

lemma mfs_Cons:
  "marked_rows [e] = [] \<Longrightarrow> marks_follow_success t \<Longrightarrow> marks_follow_success (e # t)"
  using mfs_append [of "[e]" t] by (simp add: mfs_no_marks)

lemma mfs_snoc:
  "marks_follow_success t \<Longrightarrow> marked_rows u = [] \<Longrightarrow> marks_follow_success (t @ u)"
  by (simp add: mfs_append mfs_no_marks)

lemma run_marks: "marks_follow_success (run w) \<and> distinct (marked_rows (run w))"
proof (cases "authenticate (post_token w)")
  case (Inl e)
  then show ?thesis by (simp add: run_def mfs_no_marks)
next
  case (Inr res)
  obtain token ok where res: "res = (token, ok)" by (cases res)
  show ?thesis
  proof (cases ok)
    case False
    with Inr res show ?thesis by (simp add: run_def mfs_no_marks)
  next
    case True
    show ?thesis
    proof (cases "read_excel w")
      case (Inl e)
      with Inr res True show ?thesis by (simp add: run_def mfs_no_marks)
    next
      case df: (Inr df)
      obtain ev out where prs: "process_rows w (length df) 0 df stats0 = (ev, out)"
        by (cases "process_rows w (length df) 0 df stats0")
      from process_rows_marks [of w "length df" 0 df stats0] prs
      have ev: "marks_follow_success ev" "distinct (marked_rows ev)" by simp_all
      show ?thesis
        using Inr res True df prs ev
        by (cases out) (simp_all add: run_def mfs_Cons mfs_snoc marked_rows_append)
    qed
  qed
qed


lemma process_truck_online:
  "process_row (world_online df) 1 0 row_truck stats0 =
     ([Progress 1 1, Stats_update stats0, Log (L_row ''ER-1022'' ''Camiones''),
       Get_meter_value 0 ''ER-1022'' (Inr (JInt 1000)),
       Log (L_sum (JInt 1000) (Fin 50) (Fin 1050) ''Km''),
       Update_meter 0 ''ER-1022'' (Fin 1050) (Inr (True, Msg_updated)), Log L_updated,
       Mark_status 0 ''OK'' True,
       Stats_update \<lparr>successful = 1, failed = 0, skipped = 0, already_processed = 0\<rparr>],
      Inr \<lparr>successful = 1, failed = 0, skipped = 0, already_processed = 0\<rparr>)"
proof -
  have g: "get_interno_and_categoria row_truck = (''ER-1022'', ''Camiones'')"
    by (simp add: get_interno_and_categoria_def row_truck_def row_get_def Categoria_def strip_simple)
  have e: "py_upper (py_strip (row_get row_truck ''Estado'' [])) = []"
    by (simp add: row_truck_def row_get_def Categoria_def strip_simple py_upper_def)
  show ?thesis
    by (simp add: process_row_def submit_def g e calc_truck world_online_def lookup_online
        update_accepted stats0_def int_to_float_def dbl_overflow_def Let_def)
qed

lemma run_truck_online:
  "run (world_online [row_truck]) =
     [Log L_authenticating, Authenticate (Inr True), Log L_auth_ok, Log L_loading,
      Load_excel (Inr 1), Log (L_found 1),
      Progress 1 1, Stats_update stats0, Log (L_row ''ER-1022'' ''Camiones''),
      Get_meter_value 0 ''ER-1022'' (Inr (JInt 1000)),
      Log (L_sum (JInt 1000) (Fin 50) (Fin 1050) ''Km''),
      Update_meter 0 ''ER-1022'' (Fin 1050) (Inr (True, Msg_updated)), Log L_updated,
      Mark_status 0 ''OK'' True,
      Stats_update \<lparr>successful = 1, failed = 0, skipped = 0, already_processed = 0\<rparr>,
      Log L_blank, Log L_rule,
      Log (L_completed \<lparr>successful = 1, failed = 0, skipped = 0, already_processed = 0\<rparr>),
      Finished True (Msg_summary 1 0)]"
proof -
  have a: "authenticate (post_token (world_online [row_truck])) = Inr (JStr ''t'', True)"
    by (simp add: world_online_def authenticate_def authenticate_try_def ok_response_def
        raise_for_status_def response_json_def)
  have r: "read_excel (world_online [row_truck]) = Inr [row_truck]"
    by (simp add: world_online_def)
  show ?thesis
    using process_truck_online [of "[row_truck]"] by (simp add: run_def a r)
qed

lemma report_after_changes:
  assumes "\<forall>i s ok. Mark_status i s ok \<in> set es \<longrightarrow> s = ''OK''"
  shows "report_after es col i = col i
       \<or> (report_after es col i = Some ''OK'' \<and> i \<in> set (marked_rows es))"
  using assms
proof (induction es col rule: report_after.induct)
  case (2 j s ok es col)
  have s: "s = ''OK''"
    using "2.prems" by (metis list.set_intros(1))
  have rest: "\<forall>i s ok. Mark_status i s ok \<in> set es \<longrightarrow> s = ''OK''"
    using "2.prems" by (metis list.set_intros(2))
  from "2.IH" [OF rest]
  have "report_after es (mark_status col j s ok) i = mark_status col j s ok i
       \<or> (report_after es (mark_status col j s ok) i = Some ''OK'' \<and> i \<in> set (marked_rows es))" .
  with s show ?case by (auto simp: mark_status_def split: if_splits)
qed simp_all

lemma mark_in_run:
  assumes "Mark_status i s ok \<in> set (run w)"
  shows "s = ''OK'' \<and> (\<exists>serial v m. Update_meter i serial v (Inr (True, m)) \<in> set (run w))"
proof -
  from assms obtain pre post where eq: "run w = pre @ Mark_status i s ok # post"
    by (auto simp: in_set_conv_decomp)
  with run_marks [of w] obtain pre' serial v m where
    "s = ''OK''" "pre = pre' @ [Update_meter i serial v (Inr (True, m)), Log L_updated]"
    unfolding marks_follow_success_def by blast
  with eq show ?thesis by auto
qed

lemma marked_rows_set: "i \<in> set (marked_rows es) \<Longrightarrow> \<exists>s ok. Mark_status i s ok \<in> set es"
  by (induction es rule: marked_rows.induct) auto

text \<open>
  C1. In every run, \<open>mark_status\<close> is called at most once for a row, it writes \<open>OK\<close>,
  and each call comes right after the call of \<open>update_meter\<close> for the same row has
  returned success (only the log line of the success lies between). So no status is
  written before the update is attempted, after a failed update, or for a row that is
  skipped, already processed or without meter: a status cell that the run has changed
  holds \<open>OK\<close> and belongs to a row whose update returned success.
\<close>

theorem status_written_once_after_success:
  "distinct (marked_rows (run w)) \<and>
   (\<forall>pre i s ok post. run w = pre @ Mark_status i s ok # post \<longrightarrow>
        s = ''OK'' \<and>
        (\<exists>pre' serial v m.
           pre = pre' @ [Update_meter i serial v (Inr (True, m)), Log L_updated])) \<and>
   (\<forall>i. report_after (run w) col i \<noteq> col i \<longrightarrow>
        report_after (run w) col i = Some ''OK'' \<and>
        (\<exists>serial v m. Update_meter i serial v (Inr (True, m)) \<in> set (run w)))"
proof -
  have a: "\<forall>i s ok. Mark_status i s ok \<in> set (run w) \<longrightarrow> s = ''OK''"
    using mark_in_run by blast
  have "\<forall>i. report_after (run w) col i \<noteq> col i \<longrightarrow>
        report_after (run w) col i = Some ''OK'' \<and>
        (\<exists>serial v m. Update_meter i serial v (Inr (True, m)) \<in> set (run w))"
    using report_after_changes [OF a, of col] marked_rows_set mark_in_run by blast
  with run_marks [of w] show ?thesis unfolding marks_follow_success_def by blast
qed

theorem status_written_once_after_success_witness:
  "marked_rows (run (world_online [row_truck])) = [0] \<and>
   report_after (run (world_online [row_truck])) Map.empty = [0 \<mapsto> ''OK''] \<and>
   (\<exists>pre post. run (world_online [row_truck]) = pre @ Mark_status 0 ''OK'' True # post \<and>
      (\<exists>pre' serial v m.
         pre = pre' @ [Update_meter 0 serial v (Inr (True, m)), Log L_updated]))"
proof -
  let ?pre = "[Log L_authenticating, Authenticate (Inr True), Log L_auth_ok, Log L_loading,
      Load_excel (Inr 1), Log (L_found 1),
      Progress 1 1, Stats_update stats0, Log (L_row ''ER-1022'' ''Camiones''),
      Get_meter_value 0 ''ER-1022'' (Inr (JInt 1000)),
      Log (L_sum (JInt 1000) (Fin 50) (Fin 1050) ''Km''),
      Update_meter 0 ''ER-1022'' (Fin 1050) (Inr (True, Msg_updated)), Log L_updated]"
  let ?post = "[Stats_update \<lparr>successful = 1, failed = 0, skipped = 0, already_processed = 0\<rparr>,
      Log L_blank, Log L_rule,
      Log (L_completed \<lparr>successful = 1, failed = 0, skipped = 0, already_processed = 0\<rparr>),
      Finished True (Msg_summary 1 0)]"
  have eq: "run (world_online [row_truck]) = ?pre @ Mark_status 0 ''OK'' True # ?post"
    by (simp add: run_truck_online)
  have m: "marked_rows (run (world_online [row_truck])) = [0]"
    by (simp add: run_truck_online)
  have c: "report_after (run (world_online [row_truck])) Map.empty = [0 \<mapsto> ''OK'']"
    by (simp add: run_truck_online mark_status_def)
  from status_written_once_after_success [of "world_online [row_truck]"] eq
  have "\<exists>pre' serial v m.
         ?pre = pre' @ [Update_meter 0 serial v (Inr (True, m)), Log L_updated]"
    by blast
  with eq m c show ?thesis by blast
qed

section \<open>The client calls and the exceptions they let through\<close>



















section \<open>The value calculator\<close>

subsection \<open>What the readers of numbers can raise\<close>




lemma py_split_no_sep: "d \<notin> set s \<Longrightarrow> py_split d s = [s]"
  by (induction s) auto



subsection \<open>Sixtieths are never small enough to underflow\<close>







subsection \<open>The running time\<close>











subsection \<open>A running time too large for a float\<close>

lemma py_strip_no_space: "\<forall>c \<in> set s. \<not> is_space c \<Longrightarrow> py_strip s = s"
proof -
  assume a: "\<forall>c \<in> set s. \<not> is_space c"
  then have "dropWhile is_space s = s" by (cases s) auto
  moreover from a have "dropWhile is_space (rev s) = rev s" by (cases "rev s") auto
  ultimately show ?thesis by (simp add: py_strip_def)
qed

lemma digitpart_digits: "s \<noteq> [] \<Longrightarrow> list_all is_digit s \<Longrightarrow> digitpart s = Some s"
proof (induction s rule: digitpart.induct)
  case (3 c d cs)
  then have "d \<noteq> CHR ''_''" by (auto simp: is_digit_def)
  with 3 show ?case by simp
qed simp_all

lemma is_digit_not_space: "is_digit c \<Longrightarrow> \<not> is_space c"
  by (auto simp: is_digit_def is_space_def)

lemma py_int_digits:
  assumes "s \<noteq> []" "list_all is_digit s" "length s \<le> 4300"
  shows "py_int s = Inr (int (digits_val s))"
proof -
  have "py_strip s = s"
    using assms(2) by (intro py_strip_no_space) (auto simp: list_all_iff is_digit_not_space)
  moreover have "split_sign s = (False, s)"
    using assms(1,2) by (cases s) (auto simp: split_sign_def is_digit_def)
  ultimately show ?thesis
    using assms by (simp add: py_int_def digitpart_digits)
qed

lemma foldl_zeros:
  "foldl (\<lambda>n c. 10 * n + digit_val c) a (replicate k (CHR ''0'')) = a * 10 ^ k"
  by (induction k arbitrary: a) (simp_all add: digit_val_def)

lemma digits_val_zeros: "digits_val (CHR ''2'' # replicate k (CHR ''0'')) = 2 * 10 ^ k"
  by (simp add: digits_val_def foldl_zeros) (simp add: digit_val_def)

lemma py_int_huge: "py_int (CHR ''2'' # replicate 308 (CHR ''0'')) = Inr (2 * 10 ^ 308)"
proof -
  have "py_int (CHR ''2'' # replicate 308 (CHR ''0''))
        = Inr (int (digits_val (CHR ''2'' # replicate 308 (CHR ''0''))))"
    by (rule py_int_digits) (simp_all add: list_all_iff is_digit_def)
  then show ?thesis by (simp add: digits_val_zeros)
qed

lemma parse_tiempo_huge:
  "parse_tiempo (CHR ''2'' # replicate 308 (CHR ''0'')) = Inl OverflowError"
proof -
  have "py_split (CHR '':'') (CHR ''2'' # replicate 308 (CHR ''0''))
        = [CHR ''2'' # replicate 308 (CHR ''0'')]"
    by (rule py_split_no_sep) simp
  then show ?thesis
    by (simp add: parse_tiempo_def py_int_huge int_truediv_def int_to_float_def
        dbl_overflow_def dbl_tiny_def)
qed

text \<open>
  C7 fails on the code: for a machine whose running time is the digit 2 followed by 308
  zeros, \<open>int\<close> reads the hours, and the addition \<open>horas + minutos / 60\<close> raises
  \<open>OverflowError\<close>, which \<open>except (ValueError, IndexError)\<close> does not catch: the
  calculator raises to its caller.
\<close>

theorem calculate_value_to_add_raises_overflow:
  "calculate_value_to_add row_huge_hours = Inl OverflowError"
proof -
  have "py_strip (CHR ''2'' # replicate 308 (CHR ''0'')) = CHR ''2'' # replicate 308 (CHR ''0'')"
    by (rule py_strip_no_space) (auto simp: is_space_def)
  then show ?thesis
    by (simp add: calculate_value_to_add_def row_huge_hours_def row_get_def Categoria_def
        strip_simple parse_tiempo_huge)
qed


section \<open>Which rows are skipped and which are submitted\<close>














lemma unknown_category_value:
  assumes "py_strip (row_get r Categoria []) \<notin> {''Flota Liviana'', ''Camiones'', ''Maquinarias''}"
  shows "calculate_value_to_add r = Inr (Fin 0, ''Desconocido'')"
  using assms by (simp add: calculate_value_to_add_def)

text \<open>
  C10, as the code has it. The category is compared as exact text after stripping: a
  row whose stripped category is none of the three names (another letter case, another
  spelling, or no value under the accented column name) gets \<open>(0.0, "Desconocido")\<close>
  from the calculator. For such a row the pipeline never calls \<open>update_meter\<close> and
  never writes a status; it counts the row as skipped when the row has an identifier, is
  not already processed and its lookup returned a value. (The identifier, the status and
  the lookup are examined before the category.)
\<close>

theorem unknown_category_is_not_updated:
  assumes "py_strip (row_get r Categoria []) \<notin> {''Flota Liviana'', ''Camiones'', ''Maquinarias''}"
  shows "calculate_value_to_add r = Inr (Fin 0, ''Desconocido'')
       \<and> filter update_or_mark (fst (process_row w n idx r st)) = []
       \<and> (py_strip (row_get r ''Interno'' []) \<noteq> []
          \<and> py_strip (row_get r ''Interno'' []) \<noteq> ''nan''
          \<and> py_upper (py_strip (row_get r ''Estado'' [])) \<noteq> ''OK''
          \<and> get_meter_value (get_meters w idx (py_strip (row_get r ''Interno'' []))) = Inr contador
          \<and> contador \<noteq> JNull
          \<longrightarrow> process_row w n idx r st =
                ([Progress (idx + 1) n, Stats_update st,
                  Log (L_row (py_strip (row_get r ''Interno'' [])) (py_strip (row_get r Categoria []))),
                  Get_meter_value idx (py_strip (row_get r ''Interno'' [])) (Inr contador),
                  Log L_zero, Stats_update (st\<lparr>skipped := skipped st + 1\<rparr>)],
                 Inr (st\<lparr>skipped := skipped st + 1\<rparr>)))"
  using unknown_category_value [OF assms]
  by (auto simp: process_row_def get_interno_and_categoria_def Let_def split: sum.splits)

lemma row_truck_lower_fields:
  "py_strip (row_get row_truck_lower ''Interno'' []) = ''ER-1022''"
  "py_upper (py_strip (row_get row_truck_lower ''Estado'' [])) = []"
  "py_strip (row_get row_truck_lower Categoria []) = ''camiones''"
  by (simp_all add: row_truck_lower_def row_get_def Categoria_def strip_simple py_upper_def)

theorem unknown_category_is_not_updated_witness:
  "py_strip (row_get row_truck_lower Categoria []) = ''camiones''
   \<and> calculate_value_to_add row_truck_lower = Inr (Fin 0, ''Desconocido'')
   \<and> process_row (world_online [row_truck_lower]) 1 0 row_truck_lower stats0 =
       ([Progress 1 1, Stats_update stats0, Log (L_row ''ER-1022'' ''camiones''),
         Get_meter_value 0 ''ER-1022'' (Inr (JInt 1000)), Log L_zero,
         Stats_update \<lparr>successful = 0, failed = 0, skipped = 1, already_processed = 0\<rparr>],
        Inr \<lparr>successful = 0, failed = 0, skipped = 1, already_processed = 0\<rparr>)
   \<and> py_strip (row_get row_no_accent Categoria []) = []
   \<and> calculate_value_to_add row_no_accent = Inr (Fin 0, ''Desconocido'')"
proof -
  have l: "get_meter_value (get_meters (world_online [row_truck_lower]) 0 ''ER-1022'') = Inr (JInt 1000)"
    by (simp add: world_online_def lookup_online)
  have a: "py_strip (row_get row_no_accent Categoria []) = []"
    by (simp add: row_no_accent_def row_get_def Categoria_def strip_simple)
  from unknown_category_is_not_updated [of row_truck_lower "world_online [row_truck_lower]" 1 0 stats0 "JInt 1000"]
    unknown_category_is_not_updated [of row_no_accent]
    row_truck_lower_fields l a
  show ?thesis by (simp add: stats0_def)
qed

text \<open>
  C10 as stated fails: a truck whose category is written \<open>camiones\<close> and for which the
  remote system has no meter is counted as failed, not as skipped.
\<close>

theorem unknown_category_without_meter_is_failed:
  "calculate_value_to_add row_truck_lower = Inr (Fin 0, ''Desconocido'')
   \<and> process_row (world_no_meter [row_truck_lower]) 1 0 row_truck_lower stats0 =
       ([Progress 1 1, Stats_update stats0, Log (L_row ''ER-1022'' ''camiones''),
         Get_meter_value 0 ''ER-1022'' (Inr JNull), Log L_no_meter,
         Stats_update \<lparr>successful = 0, failed = 1, skipped = 0, already_processed = 0\<rparr>],
        Inr \<lparr>successful = 0, failed = 1, skipped = 0, already_processed = 0\<rparr>)"
proof -
  have l: "get_meter_value (get_meters (world_no_meter [row_truck_lower]) 0 ''ER-1022'') = Inr JNull"
    by (simp add: world_no_meter_def get_meter_value_def get_meter_value_try_def
        ok_response_def raise_for_status_def response_json_def)
  have c: "calculate_value_to_add row_truck_lower = Inr (Fin 0, ''Desconocido'')"
    by (rule unknown_category_value) (simp add: row_truck_lower_fields)
  show ?thesis
    using l c row_truck_lower_fields
    by (simp add: process_row_def get_interno_and_categoria_def Let_def stats0_def)
qed

end
